theory Spec2Isabelle
  imports Complex_Main
begin

section \<open>Numbers: IEEE-754 doubles with their special values\<close>

text \<open>
  A NumPy \<^verbatim>\<open>float64\<close> is a finite number, an infinity or NaN.  Finite values are
  modelled as exact reals (rounding and overflow of finite arithmetic, and the sign of
  zero, are not modelled); comparisons and arithmetic with the special values follow IEEE 754:
  every comparison with NaN is false, \<^verbatim>\<open>inf - inf\<close> and \<^verbatim>\<open>0 * inf\<close> are NaN.
\<close>

datatype fl = Fin real | PInf | NInf | NaN

fun fl_isnan :: "fl \<Rightarrow> bool" where
  "fl_isnan NaN = True"
| "fl_isnan _ = False"

fun fl_isfinite :: "fl \<Rightarrow> bool" where
  "fl_isfinite (Fin _) = True"
| "fl_isfinite _ = False"

fun fl_lt :: "fl \<Rightarrow> fl \<Rightarrow> bool" where
  "fl_lt NaN _ = False"
| "fl_lt _ NaN = False"
| "fl_lt (Fin x) (Fin y) = (x < y)"
| "fl_lt (Fin _) PInf = True"
| "fl_lt (Fin _) NInf = False"
| "fl_lt PInf _ = False"
| "fl_lt NInf NInf = False"
| "fl_lt NInf _ = True"

fun fl_eq :: "fl \<Rightarrow> fl \<Rightarrow> bool" where
  "fl_eq (Fin x) (Fin y) = (x = y)"
| "fl_eq PInf PInf = True"
| "fl_eq NInf NInf = True"
| "fl_eq _ _ = False"

definition fl_le :: "fl \<Rightarrow> fl \<Rightarrow> bool" where
  "fl_le a b = (fl_lt a b \<or> fl_eq a b)"

definition fl_gt :: "fl \<Rightarrow> fl \<Rightarrow> bool" where
  "fl_gt a b = fl_lt b a"

definition fl_ge :: "fl \<Rightarrow> fl \<Rightarrow> bool" where
  "fl_ge a b = fl_le b a"

fun fl_neg :: "fl \<Rightarrow> fl" where
  "fl_neg (Fin x) = Fin (- x)"
| "fl_neg PInf = NInf"
| "fl_neg NInf = PInf"
| "fl_neg NaN = NaN"

fun fl_add :: "fl \<Rightarrow> fl \<Rightarrow> fl" where
  "fl_add NaN _ = NaN"
| "fl_add _ NaN = NaN"
| "fl_add (Fin x) (Fin y) = Fin (x + y)"
| "fl_add PInf NInf = NaN"
| "fl_add NInf PInf = NaN"
| "fl_add PInf _ = PInf"
| "fl_add NInf _ = NInf"
| "fl_add (Fin _) b = b"

definition fl_sub :: "fl \<Rightarrow> fl \<Rightarrow> fl" where
  "fl_sub a b = fl_add a (fl_neg b)"

fun fl_sgn_inf :: "bool \<Rightarrow> fl" where
  "fl_sgn_inf True = PInf"
| "fl_sgn_inf False = NInf"

fun fl_mul :: "fl \<Rightarrow> fl \<Rightarrow> fl" where
  "fl_mul NaN _ = NaN"
| "fl_mul _ NaN = NaN"
| "fl_mul (Fin x) (Fin y) = Fin (x * y)"
| "fl_mul (Fin x) PInf = (if x = 0 then NaN else fl_sgn_inf (0 < x))"
| "fl_mul (Fin x) NInf = (if x = 0 then NaN else fl_sgn_inf (x < 0))"
| "fl_mul PInf (Fin y) = (if y = 0 then NaN else fl_sgn_inf (0 < y))"
| "fl_mul NInf (Fin y) = (if y = 0 then NaN else fl_sgn_inf (y < 0))"
| "fl_mul PInf PInf = PInf"
| "fl_mul NInf NInf = PInf"
| "fl_mul PInf NInf = NInf"
| "fl_mul NInf PInf = NInf"

fun fl_abs :: "fl \<Rightarrow> fl" where
  "fl_abs (Fin x) = Fin \<bar>x\<bar>"
| "fl_abs PInf = PInf"
| "fl_abs NInf = PInf"
| "fl_abs NaN = NaN"

text \<open>Division by the float \<^verbatim>\<open>2.\<close>.\<close>

fun fl_half :: "fl \<Rightarrow> fl" where
  "fl_half (Fin x) = Fin (x / 2)"
| "fl_half a = a"

text \<open>
  \<^verbatim>\<open>np.maximum\<close> and \<^verbatim>\<open>np.minimum\<close> keep the first operand when it is NaN or wins
  the comparison, else take the second; \<^verbatim>\<open>np.round\<close> rounds half to even.
\<close>

definition fl_maximum :: "fl \<Rightarrow> fl \<Rightarrow> fl" where
  "fl_maximum a b = (if fl_ge a b \<or> fl_isnan a then a else b)"

definition fl_minimum :: "fl \<Rightarrow> fl \<Rightarrow> fl" where
  "fl_minimum a b = (if fl_le a b \<or> fl_isnan a then a else b)"

definition round_half_even :: "real \<Rightarrow> int" where
  "round_half_even x =
     (let f = \<lfloor>x\<rfloor>; d = x - of_int f
      in if d < 1 / 2 then f else if 1 / 2 < d then f + 1 else if even f then f else f + 1)"

fun fl_round :: "fl \<Rightarrow> fl" where
  "fl_round (Fin x) = Fin (of_int (round_half_even x))"
| "fl_round a = a"

text \<open>
  An array entry is a real or a complex double (the array's dtype is \<^verbatim>\<open>float64\<close> or
  \<^verbatim>\<open>complex128\<close>; arrays of integers or Booleans are not modelled).  A binary operation
  on a real and a complex entry promotes the real one.  Complex entries are ordered
  lexicographically, as NumPy orders them.
\<close>

datatype num = R fl | C fl fl

fun re_part :: "num \<Rightarrow> fl" where
  "re_part (R a) = a"
| "re_part (C a _) = a"

fun im_part :: "num \<Rightarrow> fl" where
  "im_part (R _) = Fin 0"
| "im_part (C _ b) = b"

fun num_real :: "num \<Rightarrow> num" where
  "num_real x = R (re_part x)"

fun num_imag :: "num \<Rightarrow> num" where
  "num_imag x = R (im_part x)"

fun num_conj :: "num \<Rightarrow> num" where
  "num_conj (R a) = R a"
| "num_conj (C a b) = C a (fl_neg b)"

fun astype_complex :: "num \<Rightarrow> num" where
  "astype_complex (R a) = C a (Fin 0)"
| "astype_complex (C a b) = C a b"

fun num_add :: "num \<Rightarrow> num \<Rightarrow> num" where
  "num_add (R a) (R b) = R (fl_add a b)"
| "num_add x y = C (fl_add (re_part x) (re_part y)) (fl_add (im_part x) (im_part y))"

fun num_sub :: "num \<Rightarrow> num \<Rightarrow> num" where
  "num_sub (R a) (R b) = R (fl_sub a b)"
| "num_sub x y = C (fl_sub (re_part x) (re_part y)) (fl_sub (im_part x) (im_part y))"

fun num_mul :: "num \<Rightarrow> num \<Rightarrow> num" where
  "num_mul (R a) (R b) = R (fl_mul a b)"
| "num_mul x y =
     C (fl_sub (fl_mul (re_part x) (re_part y)) (fl_mul (im_part x) (im_part y)))
       (fl_add (fl_mul (re_part x) (im_part y)) (fl_mul (im_part x) (re_part y)))"

text \<open>
  Division by \<^verbatim>\<open>2.\<close>: a complex entry is divided by \<^verbatim>\<open>2+0j\<close> with the scaled
  formula NumPy uses (ratio \<^verbatim>\<open>0/2\<close>, scale \<^verbatim>\<open>1/2\<close>).
\<close>

fun num_half :: "num \<Rightarrow> num" where
  "num_half (R a) = R (fl_half a)"
| "num_half (C a b) =
     C (fl_half (fl_add a (fl_mul b (Fin 0)))) (fl_half (fl_sub b (fl_mul a (Fin 0))))"

text \<open>\<^verbatim>\<open>np.abs\<close>: the modulus; an infinite part gives infinity, else a NaN part gives NaN.\<close>

fun num_abs :: "num \<Rightarrow> fl" where
  "num_abs (R a) = fl_abs a"
| "num_abs (C (Fin x) (Fin y)) = Fin (sqrt (x * x + y * y))"
| "num_abs (C a b) =
     (if fl_isfinite a \<or> fl_isnan a then (if fl_isfinite b \<or> fl_isnan b then NaN else PInf)
      else PInf)"

fun num_isnan :: "num \<Rightarrow> bool" where
  "num_isnan x = (fl_isnan (re_part x) \<or> fl_isnan (im_part x))"

definition num_ge :: "num \<Rightarrow> num \<Rightarrow> bool" where
  "num_ge x y = (fl_gt (re_part x) (re_part y)
                 \<or> (fl_eq (re_part x) (re_part y) \<and> fl_ge (im_part x) (im_part y)))"

definition num_le :: "num \<Rightarrow> num \<Rightarrow> bool" where
  "num_le x y = (fl_lt (re_part x) (re_part y)
                 \<or> (fl_eq (re_part x) (re_part y) \<and> fl_le (im_part x) (im_part y)))"

fun promote_like :: "num \<Rightarrow> num \<Rightarrow> num" where
  "promote_like (C _ _) y = astype_complex y"
| "promote_like (R _) y = y"

definition num_maximum :: "num \<Rightarrow> num \<Rightarrow> num" where
  "num_maximum x y = (if num_isnan x \<or> num_ge x y then promote_like y x else promote_like x y)"

definition num_minimum :: "num \<Rightarrow> num \<Rightarrow> num" where
  "num_minimum x y = (if num_isnan x \<or> num_le x y then promote_like y x else promote_like x y)"

fun num_round :: "num \<Rightarrow> num" where
  "num_round (R a) = R (fl_round a)"
| "num_round (C a b) = C (fl_round a) (fl_round b)"

section \<open>Errors\<close>

text \<open>
  Every \<^verbatim>\<open>raise\<close> of the source is a constructor.  All but \<open>AssertionError\<close> and
  \<open>LinAlgError\<close> are Python \<^verbatim>\<open>ValueError\<close>s, told apart by their message.
  \<open>NumpyError\<close> is an exception raised inside NumPy or SciPy (shapes that cannot be
  combined).  \<open>Unmodelled\<close> marks a call whose outcome the sources here do not
  determine (a NumPy function on a SciPy sparse matrix, a product of arrays that are not
  matrices); no property below is stated at such a call.
\<close>

datatype error =
    DimensionGreaterThan2
  | InvalidDimensions
  | MustBeSquareMatrix
  | MoreThanOneSpecialAttribute
  | InvalidValueDimensions
  | ValueMustBe string
  | BoundsNotListOfTwo
  | UpperWithoutLower
  | LowerWithoutUpper
  | BoundsDimensions
  | UpperLessThanLower
  | NegInfBothBounds
  | PosInfBothBounds
  | NanBound
  | AssertionError
  | LinAlgError
  | NumpyError
  | Unmodelled

section \<open>Arrays\<close>

text \<open>
  A NumPy array: its shape and its entries in row-major order.  For every array NumPy
  builds, the number of entries is the product of the shape (\<open>wf_array\<close>).
\<close>

record 'a ndarray =
  shape :: "nat list"
  data :: "'a list"


definition np_full :: "nat list \<Rightarrow> 'a \<Rightarrow> 'a ndarray" where
  "np_full s x = \<lparr>shape = s, data = replicate (prod_list s) x\<rparr>"

definition np_map :: "('a \<Rightarrow> 'b) \<Rightarrow> 'a ndarray \<Rightarrow> 'b ndarray" where
  "np_map f a = \<lparr>shape = shape a, data = map f (data a)\<rparr>"

definition np_any :: "bool ndarray \<Rightarrow> bool" where
  "np_any a = list_ex (\<lambda>b. b) (data a)"

definition np_all :: "bool ndarray \<Rightarrow> bool" where
  "np_all a = list_all (\<lambda>b. b) (data a)"

text \<open>
  Broadcasting: shapes are aligned at their last axis; two lengths agree when they are
  equal or one of them is 1.
\<close>

fun broadcast_dims :: "nat list \<Rightarrow> nat list \<Rightarrow> nat list option" where
  "broadcast_dims [] ys = Some ys"
| "broadcast_dims xs [] = Some xs"
| "broadcast_dims (x # xs) (y # ys) =
     (if x = y \<or> y = 1 then map_option ((#) x) (broadcast_dims xs ys)
      else if x = 1 then map_option ((#) y) (broadcast_dims xs ys)
      else None)"

definition broadcast_shapes :: "nat list \<Rightarrow> nat list \<Rightarrow> nat list option" where
  "broadcast_shapes s t = map_option rev (broadcast_dims (rev s) (rev t))"

fun broadcast_data :: "nat list \<Rightarrow> nat list \<Rightarrow> 'a list \<Rightarrow> 'a list" where
  "broadcast_data (a # s) (t # ts) d =
     concat (map (\<lambda>i. broadcast_data s ts
                         (take (prod_list s) (drop ((if a = 1 then 0 else i) * prod_list s) d)))
                 [0..<t])"
| "broadcast_data _ _ d = d"

definition broadcast_to :: "'a ndarray \<Rightarrow> nat list \<Rightarrow> 'a ndarray" where
  "broadcast_to a t =
     \<lparr>shape = t,
      data = broadcast_data (replicate (length t - length (shape a)) 1 @ shape a) t (data a)\<rparr>"

definition np_binop :: "('a \<Rightarrow> 'b \<Rightarrow> 'c) \<Rightarrow> 'a ndarray \<Rightarrow> 'b ndarray \<Rightarrow> error + 'c ndarray" where
  "np_binop f a b =
     (if shape a = shape b then Inr \<lparr>shape = shape a, data = map2 f (data a) (data b)\<rparr>
      else case broadcast_shapes (shape a) (shape b) of
             None \<Rightarrow> Inl NumpyError
           | Some s \<Rightarrow>
               Inr \<lparr>shape = s,
                    data = map2 f (data (broadcast_to a s)) (data (broadcast_to b s))\<rparr>)"

text \<open>\<^verbatim>\<open>a.T\<close> reverses the axes.\<close>

fun ndindex :: "nat list \<Rightarrow> nat list list" where
  "ndindex [] = [[]]"
| "ndindex (n # ns) = concat (map (\<lambda>i. map ((#) i) (ndindex ns)) [0..<n])"

fun ravel_index :: "nat list \<Rightarrow> nat list \<Rightarrow> nat" where
  "ravel_index (n # ns) (i # js) = i * prod_list ns + ravel_index ns js"
| "ravel_index _ _ = 0"

definition np_T :: "'a ndarray \<Rightarrow> 'a ndarray" where
  "np_T a =
     (case shape a of
        [r, c] \<Rightarrow> \<lparr>shape = [c, r],
                    data = map (\<lambda>k. data a ! ((k mod r) * c + k div r)) [0..<c * r]\<rparr>
      | s \<Rightarrow> \<lparr>shape = rev s,
               data = map (\<lambda>idx. data a ! ravel_index s (rev idx)) (ndindex (rev s))\<rparr>)"

text \<open>
  \<^verbatim>\<open>np.diag\<close>: the main diagonal of a matrix, or the diagonal matrix of a vector
  (\<open>z\<close> is the zero of the entry type); any other rank raises.
\<close>

definition diag_matrix :: "'a \<Rightarrow> nat \<Rightarrow> 'a list \<Rightarrow> 'a ndarray" where
  "diag_matrix z n d =
     \<lparr>shape = [n, n],
      data = map (\<lambda>k. if k div n = k mod n then d ! (k div n) else z) [0..<n * n]\<rparr>"

definition main_diagonal :: "nat \<Rightarrow> nat \<Rightarrow> 'a list \<Rightarrow> 'a ndarray" where
  "main_diagonal r c d = \<lparr>shape = [min r c], data = map (\<lambda>i. d ! (i * c + i)) [0..<min r c]\<rparr>"

definition np_diag :: "'a \<Rightarrow> 'a ndarray \<Rightarrow> error + 'a ndarray" where
  "np_diag z a =
     (case shape a of
        [r, c] \<Rightarrow> Inr (main_diagonal r c (data a))
      | [n] \<Rightarrow> Inr (diag_matrix z n (data a))
      | _ \<Rightarrow> Inl NumpyError)"

text \<open>\<^verbatim>\<open>A.dot(B)\<close> for two matrices.\<close>

definition np_dot :: "num ndarray \<Rightarrow> num ndarray \<Rightarrow> error + num ndarray" where
  "np_dot a b =
     (case (shape a, shape b) of
        ([n, k], [k', m]) \<Rightarrow>
          if k = k' then
            Inr \<lparr>shape = [n, m],
                 data = concat (map (\<lambda>i. map (\<lambda>j.
                          foldl num_add (R (Fin 0))
                            (map (\<lambda>l. num_mul (data a ! (i * k + l)) (data b ! (l * m + j)))
                                 [0..<k]))
                          [0..<m]) [0..<n])\<rparr>
          else Inl NumpyError
      | _ \<Rightarrow> Inl Unmodelled)"

text \<open>
  \<^verbatim>\<open>np.allclose(d, 0, atol=tol)\<close> for an array \<open>d\<close> of absolute values: every entry is
  finite and at most \<open>tol\<close> (the relative term is \<open>rtol * |0| = 0\<close>).
\<close>

definition np_allclose0 :: "fl list \<Rightarrow> real \<Rightarrow> bool" where
  "np_allclose0 d tol = list_all (\<lambda>x. fl_isfinite x \<and> fl_le (fl_abs (fl_sub x (Fin 0))) (Fin tol)) d"

text \<open>
  A leaf's value is a NumPy array or a SciPy sparse matrix; a sparse matrix is given by
  the array of all its entries, of which SciPy stores the nonzero ones.
\<close>

datatype "value" = Dense "num ndarray" | Sparse "num ndarray"

fun entries :: "value \<Rightarrow> num ndarray" where
  "entries (Dense a) = a"
| "entries (Sparse a) = a"

fun is_sparse :: "value \<Rightarrow> bool" where
  "is_sparse (Sparse _) = True"
| "is_sparse (Dense _) = False"

fun value_map :: "(num \<Rightarrow> num) \<Rightarrow> value \<Rightarrow> value" where
  "value_map f (Dense a) = Dense (np_map f a)"
| "value_map f (Sparse a) = Sparse (np_map f a)"

text \<open>\<^verbatim>\<open>intf.shape\<close> of a converted value.\<close>

definition value_shape :: "value \<Rightarrow> nat list" where
  "value_shape v = shape (entries v)"

text \<open>
  \<^verbatim>\<open>S.diagonal()\<close> of a sparse matrix, and the entries of \<^verbatim>\<open>sp.diags([v], [0])\<close>
  for a vector \<open>v\<close>.
\<close>

definition sparse_diagonal :: "'a ndarray \<Rightarrow> error + 'a ndarray" where
  "sparse_diagonal a =
     (case shape a of
        [r, c] \<Rightarrow> Inr (main_diagonal r c (data a))
      | _ \<Rightarrow> Inl Unmodelled)"

definition sp_diags :: "'a \<Rightarrow> 'a ndarray \<Rightarrow> error + 'a ndarray" where
  "sp_diags z v =
     (case shape v of
        [n] \<Rightarrow> Inr (diag_matrix z n (data v))
      | _ \<Rightarrow> Inl Unmodelled)"

text \<open>
  \<^verbatim>\<open>np.abs(val - projection)\<close>.  Two arrays broadcast; with a sparse operand SciPy
  wants equal shapes, and the difference is sparse only when both operands are.
\<close>

datatype residual = DenseRes "fl ndarray" | SparseRes "fl ndarray"

definition abs_diff :: "value \<Rightarrow> value \<Rightarrow> error + residual" where
  "abs_diff v p =
     (case (v, p) of
        (Dense a, Dense b) \<Rightarrow>
          (case np_binop num_sub a b of
             Inl e \<Rightarrow> Inl e
           | Inr d \<Rightarrow> Inr (DenseRes (np_map num_abs d)))
      | _ \<Rightarrow>
          if shape (entries v) = shape (entries p) then
            (let d = \<lparr>shape = shape (entries v),
                      data = map (\<lambda>(x, y). num_abs (num_sub x y))
                                 (zip (data (entries v)) (data (entries p)))\<rparr>
             in Inr (if is_sparse v \<and> is_sparse p then SparseRes d else DenseRes d))
          else Inl NumpyError)"

section \<open>Leaf: attributes and state\<close>

text \<open>
  \<^verbatim>\<open>boolean\<close> and \<^verbatim>\<open>integer\<close> are \<^verbatim>\<open>True\<close>, \<^verbatim>\<open>False\<close> or a list of index
  tuples; a list is true when it is not empty.
\<close>

datatype flag_arg = Flag bool | Indices "nat list list"

fun truthy :: "flag_arg \<Rightarrow> bool" where
  "truthy (Flag b) = b"
| "truthy (Indices l) = (l \<noteq> [])"

text \<open>
  One endpoint of \<^verbatim>\<open>bounds\<close>: \<^verbatim>\<open>None\<close>, a float scalar (\<^verbatim>\<open>np.isscalar\<close>), a float
  \<^verbatim>\<open>np.ndarray\<close>, or any other object (a nested list, say).
\<close>

datatype bound = NoneB | ScalarB fl | ArrayB "fl ndarray" | OtherB

text \<open>The \<^verbatim>\<open>attributes\<close> dictionary, its keys in insertion order.\<close>

record attrs =
  nonneg :: bool
  nonpos :: bool
  pos :: bool
  neg :: bool
  complex :: bool
  imag :: bool
  symmetric :: bool
  diag :: bool
  PSD :: bool
  NSD :: bool
  hermitian :: bool
  boolean :: bool
  integer :: flag_arg
  sparsity :: "nat list list option"
  bounds :: "bound list option"

text \<open>\<^verbatim>\<open>attributes.items()\<close>: each key with the truth value of its entry.\<close>

definition attribute_items :: "attrs \<Rightarrow> (string \<times> bool) list" where
  "attribute_items A =
     [(''nonneg'', nonneg A), (''nonpos'', nonpos A), (''pos'', pos A), (''neg'', neg A),
      (''complex'', complex A), (''imag'', imag A), (''symmetric'', symmetric A),
      (''diag'', diag A), (''PSD'', PSD A), (''NSD'', NSD A), (''hermitian'', hermitian A),
      (''boolean'', boolean A), (''integer'', truthy (integer A)),
      (''sparsity'', (case sparsity A of None \<Rightarrow> False | Some l \<Rightarrow> l \<noteq> [])),
      (''bounds'', (case bounds A of None \<Rightarrow> False | Some l \<Rightarrow> l \<noteq> []))]"

record leaf =
  l_shape :: "nat list"
  attributes :: attrs
  boolean_idx :: "nat list list"
  integer_idx :: "nat list list"
  l_value :: "value option"
  l_args :: "unit list"
  l_bounds :: "bound list option"

text \<open>
  What \<^verbatim>\<open>leaf.py\<close> imports: \<^verbatim>\<open>intf.convert\<close>, the three tolerances of
  \<^verbatim>\<open>cvxpy.settings\<close>, and \<^verbatim>\<open>numpy.linalg\<close>'s \<^verbatim>\<open>eigh\<close> and spectral norm.  They are
  parameters of the model.
\<close>

record 'raw env =
  convert :: "'raw \<Rightarrow> value"
  GENERAL_PROJECTION_TOL :: real
  PSD_NSD_PROJECTION_TOL :: real
  SPARSE_PROJECTION_TOL :: real
  eigh :: "num ndarray \<Rightarrow> error + (fl list \<times> num ndarray)"
  norm2 :: "fl ndarray \<Rightarrow> error + fl"

subsection \<open>Sign and type queries\<close>

definition is_nonneg :: "leaf \<Rightarrow> bool" where
  "is_nonneg self = (nonneg (attributes self) \<or> pos (attributes self) \<or> boolean (attributes self))"

definition is_nonpos :: "leaf \<Rightarrow> bool" where
  "is_nonpos self = (nonpos (attributes self) \<or> neg (attributes self))"

definition is_pos :: "leaf \<Rightarrow> bool" where
  "is_pos self = pos (attributes self)"

definition is_neg :: "leaf \<Rightarrow> bool" where
  "is_neg self = neg (attributes self)"

definition is_imag :: "leaf \<Rightarrow> bool" where
  "is_imag self = imag (attributes self)"

definition is_complex :: "leaf \<Rightarrow> bool" where
  "is_complex self = (complex (attributes self) \<or> is_imag self \<or> hermitian (attributes self))"

subsection \<open>project\<close>

text \<open>
  The elementwise NumPy functions of \<^verbatim>\<open>project\<close> are modelled on arrays; what they
  do to a SciPy sparse matrix is not determined here.
\<close>

definition on_dense :: "(num ndarray \<Rightarrow> error + value) \<Rightarrow> value \<Rightarrow> error + value" where
  "on_dense f v = (case v of Dense a \<Rightarrow> f a | Sparse _ \<Rightarrow> Inl Unmodelled)"

definition np_clip :: "num \<Rightarrow> num \<Rightarrow> num \<Rightarrow> num" where
  "np_clip x lo hi = num_minimum (num_maximum x lo) hi"

definition project_diag :: "value \<Rightarrow> error + value" where
  "project_diag val =
     (case (if is_sparse val then sparse_diagonal (entries val)
            else np_diag (R (Fin 0)) (entries val)) of
        Inl e \<Rightarrow> Inl e
      | Inr d \<Rightarrow> (case sp_diags (R (Fin 0)) d of
                    Inl e \<Rightarrow> Inl e
                  | Inr m \<Rightarrow> Inr (Sparse m)))"

definition project_hermitian :: "num ndarray \<Rightarrow> error + value" where
  "project_hermitian a =
     (case np_binop num_add a (np_T (np_map num_conj a)) of
        Inl e \<Rightarrow> Inl e
      | Inr s \<Rightarrow> Inr (Dense (np_map num_half s)))"

text \<open>\<^verbatim>\<open>(V * w).dot(V.T)\<close>\<close>

definition reconstruct :: "num ndarray \<Rightarrow> fl list \<Rightarrow> error + value" where
  "reconstruct V w =
     (case np_binop num_mul V \<lparr>shape = [length w], data = map R w\<rparr> of
        Inl e \<Rightarrow> Inl e
      | Inr Vw \<Rightarrow> (case np_dot Vw (np_T V) of
                     Inl e \<Rightarrow> Inl e
                   | Inr r \<Rightarrow> Inr (Dense r)))"

definition project_symmetric ::
  "(num ndarray \<Rightarrow> error + (fl list \<times> num ndarray)) \<Rightarrow> attrs \<Rightarrow> num ndarray \<Rightarrow> error + value" where
  "project_symmetric eigh_fn A a =
     (case np_binop num_add a (np_T a) of
        Inl e \<Rightarrow> Inl e
      | Inr s \<Rightarrow>
          (let val = np_map num_half s
           in if symmetric A then Inr (Dense val)
              else case eigh_fn val of
                     Inl e \<Rightarrow> Inl e
                   | Inr (w, V) \<Rightarrow>
                       if PSD A then
                         (if \<not> list_ex (\<lambda>x. fl_lt x (Fin 0)) w then Inr (Dense val)
                          else reconstruct V (map (\<lambda>x. if fl_lt x (Fin 0) then Fin 0 else x) w))
                       else
                         (if \<not> list_ex (\<lambda>x. fl_gt x (Fin 0)) w then Inr (Dense val)
                          else reconstruct V (map (\<lambda>x. if fl_gt x (Fin 0) then Fin 0 else x) w))))"

definition project ::
  "(num ndarray \<Rightarrow> error + (fl list \<times> num ndarray)) \<Rightarrow> leaf \<Rightarrow> value \<Rightarrow> error + value" where
  "project eigh_fn self val0 =
     (let A = attributes self;
          val = (if \<not> is_complex self then value_map num_real val0 else val0)
      in if nonpos A \<and> nonneg A then Inr (value_map (num_mul (R (Fin 0))) val)
         else if nonpos A \<or> neg A then
           on_dense (\<lambda>a. Inr (Dense (np_map (\<lambda>x. num_minimum x (R (Fin 0))) a))) val
         else if nonneg A \<or> pos A then
           on_dense (\<lambda>a. Inr (Dense (np_map (\<lambda>x. num_maximum x (R (Fin 0))) a))) val
         else if imag A then Inr (value_map (\<lambda>x. num_mul (num_imag x) (C (Fin 0) (Fin 1))) val)
         else if complex A then Inr (value_map astype_complex val)
         else if boolean A then
           on_dense (\<lambda>a. Inr (Dense (np_map (\<lambda>x. num_round (np_clip x (R (Fin 0)) (R (Fin 1)))) a))) val
         else if truthy (integer A) then on_dense (\<lambda>a. Inr (Dense (np_map num_round a))) val
         else if diag A then project_diag val
         else if hermitian A then on_dense project_hermitian val
         else if symmetric A \<or> PSD A \<or> NSD A then on_dense (project_symmetric eigh_fn A) val
         else Inr val)"

subsection \<open>Validation and the value setter\<close>

definition attr_str :: "attrs \<Rightarrow> string" where
  "attr_str A =
     (if nonneg A then ''nonnegative''
      else if pos A then ''positive''
      else if nonpos A then ''nonpositive''
      else if neg A then ''negative''
      else if diag A then ''diagonal''
      else if PSD A then ''positive semidefinite''
      else if NSD A then ''negative semidefinite''
      else if imag A then ''imaginary''
      else hd (map fst (filter snd (attribute_items A)) @ [''real'']))"

text \<open>
  The residual is measured over the stored (nonzero) entries of a sparse residual, by
  the spectral norm for a PSD or NSD leaf, and entry by entry otherwise.
\<close>

definition close_enough :: "'raw env \<Rightarrow> attrs \<Rightarrow> residual \<Rightarrow> error + bool" where
  "close_enough E A delta =
     (case delta of
        SparseRes d \<Rightarrow>
          Inr (np_allclose0 (filter (\<lambda>x. \<not> fl_eq x (Fin 0)) (data d)) (SPARSE_PROJECTION_TOL E))
      | DenseRes d \<Rightarrow>
          if PSD A \<or> NSD A then
            (case norm2 E d of
               Inl e \<Rightarrow> Inl e
             | Inr n \<Rightarrow> Inr (fl_le n (Fin (PSD_NSD_PROJECTION_TOL E))))
          else Inr (np_allclose0 (data d) (GENERAL_PROJECTION_TOL E)))"

definition validate_value :: "'raw env \<Rightarrow> leaf \<Rightarrow> 'raw option \<Rightarrow> error + value option" where
  "validate_value E self val =
     (case val of
        None \<Rightarrow> Inr None
      | Some raw \<Rightarrow>
          (let v = convert E raw
           in if value_shape v \<noteq> l_shape self then Inl InvalidValueDimensions
              else case project (eigh E) self v of
                     Inl e \<Rightarrow> Inl e
                   | Inr projection \<Rightarrow>
                       (case abs_diff v projection of
                          Inl e \<Rightarrow> Inl e
                        | Inr delta \<Rightarrow>
                            (case close_enough E (attributes self) delta of
                               Inl e \<Rightarrow> Inl e
                             | Inr ok \<Rightarrow>
                                 if \<not> ok then Inl (ValueMustBe (attr_str (attributes self)))
                                 else Inr (Some v)))))"

text \<open>
  A setter returns the exception it raised, if any, and the leaf as it is afterwards.
\<close>

definition save_value :: "leaf \<Rightarrow> value option \<Rightarrow> leaf" where
  "save_value self val = self\<lparr>l_value := val\<rparr>"

definition value_setter :: "'raw env \<Rightarrow> leaf \<Rightarrow> 'raw option \<Rightarrow> error option \<times> leaf" where
  "value_setter E self val =
     (case validate_value E self val of
        Inl e \<Rightarrow> (Some e, self)
      | Inr v \<Rightarrow> (None, save_value self v))"

definition project_and_assign ::
  "'raw env \<Rightarrow> leaf \<Rightarrow> value \<Rightarrow> error option \<times> leaf" where
  "project_and_assign E self val =
     (case project (eigh E) self val of
        Inl e \<Rightarrow> (Some e, self)
      | Inr p \<Rightarrow> (None, save_value self (Some p)))"

subsection \<open>The bounds setter\<close>

fun is_scalar :: "bound \<Rightarrow> bool" where
  "is_scalar (ScalarB _) = True"
| "is_scalar _ = False"

fun is_array :: "bound \<Rightarrow> bool" where
  "is_array (ArrayB _) = True"
| "is_array _ = False"

fun bound_shape :: "bound \<Rightarrow> nat list" where
  "bound_shape (ArrayB a) = shape a"
| "bound_shape _ = []"

text \<open>
  Elementwise comparison of two endpoints, a scalar broadcast against an array; two
  arrays have passed the shape check and are compared entry by entry.
\<close>

fun elementwise :: "(fl \<Rightarrow> fl \<Rightarrow> bool) \<Rightarrow> bound \<Rightarrow> bound \<Rightarrow> bool list" where
  "elementwise f (ScalarB x) (ScalarB y) = [f x y]"
| "elementwise f (ScalarB x) (ArrayB b) = map (f x) (data b)"
| "elementwise f (ArrayB a) (ScalarB y) = map (\<lambda>x. f x y) (data a)"
| "elementwise f (ArrayB a) (ArrayB b) = map2 f (data a) (data b)"
| "elementwise f _ _ = []"

text \<open>\<^verbatim>\<open>np.any(np.isnan(b))\<close>\<close>

fun any_isnan :: "bound \<Rightarrow> bool" where
  "any_isnan (ScalarB x) = fl_isnan x"
| "any_isnan (ArrayB a) = list_ex fl_isnan (data a)"
| "any_isnan _ = False"

text \<open>
  \<^verbatim>\<open>b == np.nan\<close> for a Boolean \<open>b\<close>: the Boolean becomes \<open>1.0\<close> or \<open>0.0\<close> and is
  compared with NaN.
\<close>

definition eq_nan :: "bool \<Rightarrow> bool" where
  "eq_nan b = fl_eq (Fin (if b then 1 else 0)) NaN"

definition check_bounds :: "nat list \<Rightarrow> bound \<Rightarrow> bound \<Rightarrow> error + bound list" where
  "check_bounds self_shape lower_bounds upper_bounds =
     (if lower_bounds = NoneB \<and> upper_bounds \<noteq> NoneB then Inl UpperWithoutLower
      else if lower_bounds \<noteq> NoneB \<and> upper_bounds = NoneB then Inl LowerWithoutUpper
      else
        let is_lower_scalar = is_scalar lower_bounds;
            is_upper_scalar = is_scalar upper_bounds;
            is_lower_array = is_array lower_bounds;
            is_upper_array = is_array upper_bounds
        in
        if \<not> ((is_lower_scalar \<and> is_upper_scalar)
              \<or> (is_lower_scalar \<and> is_upper_array \<and> bound_shape upper_bounds = self_shape)
              \<or> (is_upper_scalar \<and> is_lower_array \<and> bound_shape lower_bounds = self_shape)
              \<or> (is_lower_array \<and> is_upper_array \<and> bound_shape lower_bounds = self_shape
                  \<and> bound_shape upper_bounds = self_shape))
        then Inl BoundsDimensions
        else if list_ex (\<lambda>b. b) (elementwise fl_lt upper_bounds lower_bounds)
        then Inl UpperLessThanLower
        else if is_lower_scalar \<and> is_upper_scalar
                \<and> list_all (\<lambda>b. b) (elementwise fl_eq lower_bounds (ScalarB NInf))
                \<and> list_all (\<lambda>b. b) (elementwise fl_eq upper_bounds (ScalarB NInf))
        then Inl NegInfBothBounds
        else if is_lower_scalar \<and> is_upper_scalar
                \<and> list_all (\<lambda>b. b) (elementwise fl_eq lower_bounds (ScalarB PInf))
                \<and> list_all (\<lambda>b. b) (elementwise fl_eq upper_bounds (ScalarB PInf))
        then Inl PosInfBothBounds
        else if is_lower_scalar \<and> is_upper_scalar
                \<and> (eq_nan (any_isnan lower_bounds) \<or> eq_nan (any_isnan upper_bounds))
        then Inl NanBound
        else
          let lower1 = (case lower_bounds of
                          ScalarB x \<Rightarrow> ArrayB (np_full self_shape x)
                        | b \<Rightarrow> b)
          in
          if is_lower_scalar \<and> (eq_nan (any_isnan lower1) \<or> any_isnan upper_bounds)
          then Inl NanBound
          else
            let upper1 = (case upper_bounds of
                            ScalarB x \<Rightarrow> ArrayB (np_full self_shape x)
                          | b \<Rightarrow> b)
            in
            if is_upper_scalar \<and> (eq_nan (any_isnan upper1) \<or> any_isnan lower1)
            then Inl NanBound
            else if is_lower_array \<and> is_upper_array
                    \<and> (any_isnan lower1 \<or> any_isnan upper1)
            then Inl NanBound
            else
              let negative_inf_conflict_mask =
                    map2 (\<and>) (elementwise fl_eq lower1 (ScalarB NInf))
                              (elementwise fl_eq upper1 (ScalarB NInf));
                  positive_inf_conflict_mask =
                    map2 (\<and>) (elementwise fl_eq lower1 (ScalarB PInf))
                              (elementwise fl_eq upper1 (ScalarB PInf))
              in
              if list_ex (\<lambda>b. b) negative_inf_conflict_mask then Inl NegInfBothBounds
              else if list_ex (\<lambda>b. b) positive_inf_conflict_mask then Inl PosInfBothBounds
              else Inr [lower1, upper1])"

text \<open>
  The argument is \<^verbatim>\<open>None\<close> or a Python list (the model's type leaves out an argument
  that is neither, which the setter refuses like a list of the wrong length).
\<close>

definition bounds_setter :: "leaf \<Rightarrow> bound list option \<Rightarrow> error option \<times> leaf" where
  "bounds_setter self v =
     (case v of
        None \<Rightarrow> (None, self\<lparr>l_bounds := None\<rparr>)
      | Some items \<Rightarrow>
          (case items of
             [lower_bounds, upper_bounds] \<Rightarrow>
               (case check_bounds (l_shape self) lower_bounds upper_bounds of
                  Inl e \<Rightarrow> (Some e, self)
                | Inr b \<Rightarrow> (None, self\<lparr>l_bounds := Some b\<rparr>))
           | _ \<Rightarrow> (Some BoundsNotListOfTwo, self)))"

subsection \<open>The constructor\<close>

text \<open>
  \<^verbatim>\<open>shape\<close> is an integer or an iterable of integers; the other arguments are keyword
  arguments with their defaults in \<open>default_args\<close>.  Dimensions are taken below
  \<open>2^31\<close>, where \<^verbatim>\<open>np.int32(d)\<close> keeps the value.
\<close>

datatype shape_arg = IntShape int | TupleShape "int list"

record 'raw leaf_args =
  arg_shape :: shape_arg
  arg_value :: "'raw option"
  arg_nonneg :: bool
  arg_nonpos :: bool
  arg_complex :: bool
  arg_imag :: bool
  arg_symmetric :: bool
  arg_diag :: bool
  arg_PSD :: bool
  arg_NSD :: bool
  arg_hermitian :: bool
  arg_boolean :: flag_arg
  arg_integer :: flag_arg
  arg_sparsity :: "nat list list option"
  arg_pos :: bool
  arg_neg :: bool
  arg_bounds :: "bound list option"

definition default_args :: "shape_arg \<Rightarrow> 'raw leaf_args" where
  "default_args s =
     \<lparr>arg_shape = s, arg_value = None, arg_nonneg = False, arg_nonpos = False,
      arg_complex = False, arg_imag = False, arg_symmetric = False, arg_diag = False,
      arg_PSD = False, arg_NSD = False, arg_hermitian = False, arg_boolean = Flag False,
      arg_integer = Flag False, arg_sparsity = None, arg_pos = False, arg_neg = False,
      arg_bounds = None\<rparr>"

text \<open>Python's order on tuples, and \<^verbatim>\<open>max(a, b)\<close>, which keeps \<open>a\<close> unless \<open>b\<close> is greater.\<close>

fun tuple_lt :: "nat list \<Rightarrow> nat list \<Rightarrow> bool" where
  "tuple_lt [] [] = False"
| "tuple_lt [] (y # ys) = True"
| "tuple_lt (x # xs) [] = False"
| "tuple_lt (x # xs) (y # ys) = (x < y \<or> (x = y \<and> tuple_lt xs ys))"

definition py_max :: "nat list \<Rightarrow> nat list \<Rightarrow> nat list" where
  "py_max a b = (if tuple_lt a b then b else a)"

definition index_list :: "flag_arg \<Rightarrow> nat list \<Rightarrow> nat list list" where
  "index_list flag shp =
     (if truthy flag then (case flag of Indices l \<Rightarrow> l | Flag _ \<Rightarrow> ndindex (py_max shp [1]))
      else [])"

definition is_square :: "nat list \<Rightarrow> bool" where
  "is_square shp = (case shp of [a, b] \<Rightarrow> a = b | _ \<Rightarrow> False)"

text \<open>The shape checks that open the constructor.\<close>

definition init_shape :: "'raw leaf_args \<Rightarrow> error + nat list" where
  "init_shape a =
     (case (case arg_shape a of
              IntShape n \<Rightarrow> Inr [n]
            | TupleShape ds \<Rightarrow> if length ds > 2 then Inl DimensionGreaterThan2 else Inr ds) of
        Inl e \<Rightarrow> Inl e
      | Inr ds \<Rightarrow>
          if list_ex (\<lambda>d. d \<le> 0) ds then Inl InvalidDimensions
          else
            let shp = map nat ds in
            if (arg_PSD a \<or> arg_NSD a \<or> arg_symmetric a \<or> arg_diag a \<or> arg_hermitian a)
               \<and> \<not> is_square shp
            then Inl MustBeSquareMatrix
            else Inr shp)"

definition init_attributes :: "'raw leaf_args \<Rightarrow> attrs" where
  "init_attributes a =
     \<lparr>nonneg = arg_nonneg a, nonpos = arg_nonpos a,
      pos = arg_pos a, neg = arg_neg a,
      complex = arg_complex a, imag = arg_imag a,
      symmetric = arg_symmetric a, diag = arg_diag a,
      PSD = arg_PSD a, NSD = arg_NSD a,
      hermitian = arg_hermitian a, boolean = truthy (arg_boolean a),
      integer = arg_integer a, sparsity = arg_sparsity a,
      bounds = arg_bounds a\<rparr>"

definition Leaf_init :: "'raw env \<Rightarrow> 'raw leaf_args \<Rightarrow> error + leaf" where
  "Leaf_init E a =
     (case init_shape a of
        Inl e \<Rightarrow> Inl e
      | Inr shp \<Rightarrow>
          let A = init_attributes a;
              true_attr = int (length (filter snd (attribute_items A)));
              true_attr = (if truthy (arg_boolean a) \<and> truthy (arg_integer a)
                           then true_attr - 1 else true_attr)
          in
          if true_attr > 1 then Inl MoreThanOneSpecialAttribute
          else
            let self = \<lparr>l_shape = shp, attributes = A,
                        boolean_idx = index_list (arg_boolean a) shp,
                        integer_idx = index_list (arg_integer a) shp,
                        l_value = None, l_args = [], l_bounds = None\<rparr>
            in
            (case (if arg_value a \<noteq> None then value_setter E self (arg_value a)
                   else (None, self)) of
               (Some e, _) \<Rightarrow> Inl e
             | (None, self1) \<Rightarrow>
                 (case bounds_setter (self1\<lparr>l_args := []\<rparr>) (arg_bounds a) of
                    (Some e, _) \<Rightarrow> Inl e
                  | (None, self2) \<Rightarrow> Inr self2)))"

text \<open>
  An environment for the concrete examples: values are given in canonical form, the
  tolerances are those of \<^verbatim>\<open>cvxpy.settings\<close>, and the LAPACK routines are not reached.
\<close>

definition example_env :: "value env" where
  "example_env =
     \<lparr>convert = (\<lambda>v. v),
      GENERAL_PROJECTION_TOL = 1 / 10 ^ 10,
      PSD_NSD_PROJECTION_TOL = 1 / 10 ^ 8,
      SPARSE_PROJECTION_TOL = 1 / 10 ^ 10,
      eigh = (\<lambda>_. Inl LinAlgError),
      norm2 = (\<lambda>_. Inl LinAlgError)\<rparr>"

subsection \<open>Attribute kinds\<close>







text \<open>
  The entries of the diagonal matrix that \<^verbatim>\<open>project\<close> builds for a diagonal leaf from
  an \<open>n \<times> n\<close> array with the entries \<open>d\<close>: the real parts of the diagonal, zero elsewhere.
\<close>

definition diag_entries :: "nat \<Rightarrow> num list \<Rightarrow> num list" where
  "diag_entries n d =
     map (\<lambda>k. if k div n = k mod n then R (re_part (d ! (k div n * n + k div n))) else R (Fin 0))
         [0..<n * n]"

text \<open>Leaves for the concrete examples: no flag set, no value, no bounds.\<close>

definition plain_attrs :: attrs where
  "plain_attrs =
     \<lparr>nonneg = False, nonpos = False, pos = False, neg = False, complex = False, imag = False,
      symmetric = False, diag = False, PSD = False, NSD = False, hermitian = False,
      boolean = False, integer = Flag False, sparsity = None, bounds = None\<rparr>"

definition mk_leaf :: "nat list \<Rightarrow> attrs \<Rightarrow> leaf" where
  "mk_leaf s A =
     \<lparr>l_shape = s, attributes = A, boolean_idx = [], integer_idx = [],
      l_value = None, l_args = [], l_bounds = None\<rparr>"

section \<open>Elementwise maximum: sign rule\<close>

text \<open>
  \<^verbatim>\<open>max_elemwise.__init__(self, arg1, arg2, *args)\<close> requires at least two arguments and
  hands them to the atom's argument list.  An argument is an expression; the atom only
  asks it \<^verbatim>\<open>is_positive()\<close> and \<^verbatim>\<open>is_negative()\<close>, so the two methods are
  parameters of the model.
\<close>

record 'e max_elemwise =
  args :: "'e list"

definition max_elemwise_init :: "'e \<Rightarrow> 'e \<Rightarrow> 'e list \<Rightarrow> 'e max_elemwise" where
  "max_elemwise_init arg1 arg2 rest = \<lparr>args = arg1 # arg2 # rest\<rparr>"

definition sign_from_args ::
  "('e \<Rightarrow> bool) \<Rightarrow> ('e \<Rightarrow> bool) \<Rightarrow> 'e max_elemwise \<Rightarrow> bool \<times> bool" where
  "sign_from_args is_positive is_negative self =
     (let is_pos = list_ex is_positive (args self);
          is_neg = list_all is_negative (args self)
      in (is_pos, is_neg))"

section \<open>Elementwise maximum: reduction\<close>




section \<open>Certification utilities\<close>

subsection \<open>orth and onb\_for\_orthogonal\_complement\<close>

text \<open>
  \<^verbatim>\<open>scipy.linalg.qr(V, mode='economic', pivoting=True)\<close> is a parameter: it returns
  \<open>Q\<close>, \<open>R\<close> and the pivots, or raises.
\<close>

type_synonym qr_fn = "num ndarray \<Rightarrow> error + (num ndarray \<times> num ndarray \<times> nat list)"

text \<open>
  \<^verbatim>\<open>np.count_nonzero(np.sum(np.abs(R) > tol, axis=1))\<close>: the number of rows of \<open>R\<close>
  with an entry above \<open>tol\<close> in magnitude.
\<close>

definition count_rows_above :: "num ndarray \<Rightarrow> fl \<Rightarrow> error + nat" where
  "count_rows_above Rm tol =
     (case shape Rm of
        [k, m] \<Rightarrow>
          Inr (length (filter (\<lambda>i. list_ex (\<lambda>j. fl_gt (num_abs (data Rm ! (i * m + j))) tol) [0..<m])
                              [0..<k]))
      | _ \<Rightarrow> Inl NumpyError)"

text \<open>\<^verbatim>\<open>Q[:, :rank].reshape((n, rank))\<close>\<close>

definition first_columns :: "num ndarray \<Rightarrow> nat \<Rightarrow> nat \<Rightarrow> error + num ndarray" where
  "first_columns Q rank n =
     (case shape Q of
        [r, c] \<Rightarrow>
          (let c1 = min rank c
           in if r * c1 = n * rank then
                Inr \<lparr>shape = [n, rank],
                     data = map (\<lambda>k. data Q ! ((k div c1) * c + k mod c1)) [0..<r * c1]\<rparr>
              else Inl NumpyError)
      | _ \<Rightarrow> Inl NumpyError)"

definition orth :: "qr_fn \<Rightarrow> num ndarray \<Rightarrow> fl \<Rightarrow> error + num ndarray" where
  "orth qr V tol =
     (case qr V of
        Inl e \<Rightarrow> Inl e
      | Inr (Q, Rm, p) \<Rightarrow>
          (case count_rows_above Rm tol of
             Inl e \<Rightarrow> Inl e
           | Inr rank \<Rightarrow>
               (case shape V of
                  [] \<Rightarrow> Inl NumpyError
                | n # _ \<Rightarrow> first_columns Q rank n)))"

definition np_eye :: "nat \<Rightarrow> num ndarray" where
  "np_eye n =
     \<lparr>shape = [n, n],
      data = map (\<lambda>k. if k div n = k mod n then R (Fin 1) else R (Fin 0)) [0..<n * n]\<rparr>"

text \<open>\<^verbatim>\<open>np.iscomplexobj\<close>: the array holds complex entries.\<close>

definition iscomplexobj :: "num ndarray \<Rightarrow> bool" where
  "iscomplexobj a = list_ex (\<lambda>x. case x of C _ _ \<Rightarrow> True | R _ \<Rightarrow> False) (data a)"

text \<open>\<^verbatim>\<open>np.eye(n) - Q1 @ Q1.conj().T\<close> for complex \<open>V\<close>, \<^verbatim>\<open>np.eye(n) - Q1 @ Q1.T\<close> otherwise.\<close>

definition complement_projector :: "nat \<Rightarrow> num ndarray \<Rightarrow> num ndarray \<Rightarrow> error + num ndarray" where
  "complement_projector n V Q1 =
     (case np_dot Q1 (np_T (if iscomplexobj V then np_map num_conj Q1 else Q1)) of
        Inl e \<Rightarrow> Inl e
      | Inr M \<Rightarrow> np_binop num_sub (np_eye n) M)"

definition onb_for_orthogonal_complement :: "qr_fn \<Rightarrow> num ndarray \<Rightarrow> error + num ndarray" where
  "onb_for_orthogonal_complement qr V =
     (case shape V of
        [] \<Rightarrow> Inl NumpyError
      | n # _ \<Rightarrow>
          (case orth qr V (Fin (1 / 10 ^ 12)) of
             Inl e \<Rightarrow> Inl e
           | Inr Q1 \<Rightarrow>
               (case shape Q1 of
                  [_, rank] \<Rightarrow>
                    if \<not> n > rank then Inl AssertionError
                    else
                      (case complement_projector n V Q1 of
                         Inl e \<Rightarrow> Inl e
                       | Inr P \<Rightarrow> orth qr P (Fin (1 / 10 ^ 12)))
                | _ \<Rightarrow> Inl NumpyError)))"

text \<open>
  The factorisation of a \<open>1 \<times> 1\<close> matrix, for the concrete examples: \<open>Q = [[1]]\<close>,
  \<open>R = V\<close>, no pivoting.
\<close>

definition qr_1x1 :: qr_fn where
  "qr_1x1 V =
     (if shape V = [1, 1] \<and> length (data V) = 1
      then Inr (\<lparr>shape = [1, 1], data = [R (Fin 1)]\<rparr>, V, [0])
      else Inl Unmodelled)"

section \<open>Auxiliary facts\<close>

lemma count_filter_snd:
  "length (filter snd xs) = sum_list (map (\<lambda>p. of_bool (snd p)) xs)"
  by (induction xs) auto

lemma true_attr_count:
  "length (filter snd (attribute_items A)) =
     of_bool (nonneg A) + of_bool (nonpos A) + of_bool (pos A) + of_bool (neg A)
     + of_bool (complex A) + of_bool (imag A) + of_bool (symmetric A) + of_bool (diag A)
     + of_bool (PSD A) + of_bool (NSD A) + of_bool (hermitian A) + of_bool (boolean A)
     + of_bool (truthy (integer A))
     + of_bool (case sparsity A of None \<Rightarrow> False | Some l \<Rightarrow> l \<noteq> [])
     + of_bool (case bounds A of None \<Rightarrow> False | Some l \<Rightarrow> l \<noteq> [])"
  unfolding count_filter_snd attribute_items_def by simp

lemma init_true_attr_count:
  "length (filter snd (attribute_items (init_attributes a))) =
     of_bool (arg_nonneg a) + of_bool (arg_nonpos a) + of_bool (arg_pos a) + of_bool (arg_neg a)
     + of_bool (arg_complex a) + of_bool (arg_imag a) + of_bool (arg_symmetric a)
     + of_bool (arg_diag a) + of_bool (arg_PSD a) + of_bool (arg_NSD a)
     + of_bool (arg_hermitian a) + of_bool (truthy (arg_boolean a))
     + of_bool (truthy (arg_integer a))
     + of_bool (case arg_sparsity a of None \<Rightarrow> False | Some l \<Rightarrow> l \<noteq> [])
     + of_bool (case arg_bounds a of None \<Rightarrow> False | Some l \<Rightarrow> l \<noteq> [])"
  by (simp add: true_attr_count init_attributes_def)

lemma value_setter_frame:
  "value_setter E self v = (r, self') \<Longrightarrow>
     l_shape self' = l_shape self \<and> attributes self' = attributes self
     \<and> boolean_idx self' = boolean_idx self \<and> integer_idx self' = integer_idx self
     \<and> l_args self' = l_args self \<and> l_bounds self' = l_bounds self"
  by (auto simp: value_setter_def save_value_def split: sum.splits)

lemma bounds_setter_frame:
  "bounds_setter self v = (r, self') \<Longrightarrow>
     l_shape self' = l_shape self \<and> attributes self' = attributes self
     \<and> boolean_idx self' = boolean_idx self \<and> integer_idx self' = integer_idx self
     \<and> l_args self' = l_args self \<and> l_value self' = l_value self"
  by (auto simp: bounds_setter_def split: option.splits list.splits sum.splits)

lemma Leaf_init_attributes:
  assumes "Leaf_init E a = Inr l"
  shows "attributes l = init_attributes a"
proof -
  from assms show ?thesis
    unfolding Leaf_init_def Let_def
    by (auto split: sum.splits if_splits prod.splits option.splits
             dest!: value_setter_frame bounds_setter_frame)
qed

lemma init_shape_errors:
  "init_shape a = Inl e \<Longrightarrow>
     e \<in> {DimensionGreaterThan2, InvalidDimensions, MustBeSquareMatrix}"
  by (auto simp: init_shape_def Let_def split: shape_arg.splits if_splits sum.splits)

lemma Leaf_init_too_many:
  assumes "2 \<le> length (filter snd (attribute_items (init_attributes a)))"
      and "truthy (arg_boolean a) \<and> truthy (arg_integer a)
           \<longrightarrow> 3 \<le> length (filter snd (attribute_items (init_attributes a)))"
  shows "Leaf_init E a = Inl MoreThanOneSpecialAttribute
         \<or> Leaf_init E a = Inl DimensionGreaterThan2
         \<or> Leaf_init E a = Inl InvalidDimensions
         \<or> Leaf_init E a = Inl MustBeSquareMatrix"
proof (cases "init_shape a")
  case (Inl e)
  with init_shape_errors [of a e] show ?thesis by (auto simp: Leaf_init_def)
next
  case (Inr shp)
  with assms show ?thesis by (auto simp: Leaf_init_def Let_def)
qed

lemma no_conflict_replicate:
  "\<not> list_ex (\<lambda>b. b) (map2 (\<and>) (replicate n False) ys)"
  by (auto simp: list_ex_iff set_zip)

lemma bounds_nan_scalar_lower:
  "bounds_setter (self\<lparr>l_shape := [2]\<rparr>)
      (Some [ScalarB NaN, ArrayB \<lparr>shape = [2], data = [Fin 1, Fin 2]\<rparr>])
     = (None, self\<lparr>l_shape := [2],
                    l_bounds := Some [ArrayB \<lparr>shape = [2], data = [NaN, NaN]\<rparr>,
                                      ArrayB \<lparr>shape = [2], data = [Fin 1, Fin 2]\<rparr>]\<rparr>)"
  by (simp add: bounds_setter_def check_bounds_def eq_nan_def np_full_def numeral_2_eq_2)

lemma bounds_nan_scalar_upper:
  "bounds_setter (self\<lparr>l_shape := [2]\<rparr>)
      (Some [ArrayB \<lparr>shape = [2], data = [Fin 1, Fin 2]\<rparr>, ScalarB NaN])
     = (None, self\<lparr>l_shape := [2],
                    l_bounds := Some [ArrayB \<lparr>shape = [2], data = [Fin 1, Fin 2]\<rparr>,
                                      ArrayB \<lparr>shape = [2], data = [NaN, NaN]\<rparr>]\<rparr>)"
  by (simp add: bounds_setter_def check_bounds_def eq_nan_def np_full_def numeral_2_eq_2)

lemma bounds_nan_two_scalars:
  "bounds_setter (self\<lparr>l_shape := [2]\<rparr>) (Some [ScalarB NaN, ScalarB (Fin 3)])
     = (Some NanBound, self\<lparr>l_shape := [2]\<rparr>)"
  by (simp add: bounds_setter_def check_bounds_def eq_nan_def np_full_def numeral_2_eq_2)

lemma bounds_5_3:
  "bounds_setter self (Some [ScalarB (Fin 5), ScalarB (Fin 3)]) = (Some UpperLessThanLower, self)"
  by (simp add: bounds_setter_def check_bounds_def)

lemma bounds_neg_inf:
  "bounds_setter self (Some [ScalarB NInf, ScalarB NInf]) = (Some NegInfBothBounds, self)"
  by (simp add: bounds_setter_def check_bounds_def)

lemma bounds_3_3:
  "bounds_setter self (Some [ScalarB (Fin 3), ScalarB (Fin 3)])
     = (None, self\<lparr>l_bounds := Some [ArrayB (np_full (l_shape self) (Fin 3)),
                                      ArrayB (np_full (l_shape self) (Fin 3))]\<rparr>)"
  by (simp add: bounds_setter_def check_bounds_def eq_nan_def np_full_def fl_le_def
       no_conflict_replicate Let_def list_ex_iff)




lemma validate_value_original:
  "validate_value E self val = Inr v \<Longrightarrow> v = map_option (convert E) val"
  by (auto simp: validate_value_def Let_def split: option.splits sum.splits if_splits)

lemma map_upt_cong:
  "(\<And>k. k < n \<Longrightarrow> f k = g k) \<Longrightarrow> map f [0..<n] = map g [0..<n]"
  by simp

lemma fl_le_Fin [simp]: "fl_le (Fin a) (Fin b) = (a \<le> b)"
  by (auto simp: fl_le_def)

lemma square_index:
  fixes i j n :: nat
  assumes "i < n" "j < n"
  shows "i * n + j < n * n" "(i * n + j) div n = i" "(i * n + j) mod n = j"
proof -
  have "Suc i \<le> n" using assms by simp
  then have "Suc i * n \<le> n * n" by (rule mult_le_mono1)
  moreover have "i * n + j < Suc i * n" using assms by simp
  ultimately show "i * n + j < n * n" by linarith
  show "(i * n + j) div n = i" using assms by simp
  show "(i * n + j) mod n = j" using assms by simp
qed


lemma count_rows_above_le:
  "shape Rm = [k, m] \<Longrightarrow> count_rows_above Rm tol = Inr rank \<Longrightarrow> rank \<le> k"
  by (auto simp: count_rows_above_def intro: order_trans [OF length_filter_le])

lemma orth_shape:
  assumes "shape V = [n, m]" "qr V = Inr (Q, Rm, p)" "shape Q = [n, k]" "shape Rm = [k, m]"
      and "count_rows_above Rm tol = Inr rank"
  shows "\<exists>Q1. orth qr V tol = Inr Q1 \<and> shape Q1 = [n, rank]"
proof -
  have "rank \<le> k" using count_rows_above_le [OF assms(4,5)] .
  then have "min rank k = rank" by simp
  then show ?thesis
    using assms by (simp add: orth_def first_columns_def Let_def)
qed

lemma onb_small_matrix:
  "onb_for_orthogonal_complement qr_1x1 \<lparr>shape = [1, 1], data = [R (Fin (1 / 10 ^ 13))]\<rparr>
     = Inr \<lparr>shape = [1, 1], data = [R (Fin 1)]\<rparr>"
  by (simp add: onb_for_orthogonal_complement_def orth_def qr_1x1_def count_rows_above_def
        first_columns_def fl_gt_def complement_projector_def np_dot_def np_T_def iscomplexobj_def
        np_binop_def np_eye_def fl_sub_def)



lemma round_half_even_of_int [simp]: "round_half_even (of_int n) = n"
  by (simp add: round_half_even_def)






















lemma re_part_diag_entries:
  "map (\<lambda>i. R (re_part (diag_entries n d ! (i * n + i)))) [0..<n]
     = map (\<lambda>i. R (re_part (d ! (i * n + i)))) [0..<n]"
  unfolding diag_entries_def
  by (intro map_upt_cong) (simp add: square_index)






section \<open>Properties\<close>

text \<open>
  C1. The class documents that a leaf may be both \<^verbatim>\<open>nonpos\<close> and \<^verbatim>\<open>nonneg\<close>, and
  \<^verbatim>\<open>project\<close> has a branch for such a leaf, but the constructor counts the two
  attributes like any others: whatever the other arguments are, constructing a leaf with
  \<^verbatim>\<open>nonneg=True\<close> and \<^verbatim>\<open>nonpos=True\<close> raises, and with a valid shape the error is the
  one about more than one special attribute, the same as for \<^verbatim>\<open>nonneg=True, PSD=True\<close>.
\<close>

theorem Leaf_init_nonneg_nonpos_raises:
  "Leaf_init E (a\<lparr>arg_nonneg := True, arg_nonpos := True\<rparr>)
     \<in> {Inl DimensionGreaterThan2, Inl InvalidDimensions, Inl MustBeSquareMatrix,
        Inl MoreThanOneSpecialAttribute}
   \<and> Leaf_init example_env ((default_args (IntShape 2))\<lparr>arg_nonneg := True, arg_nonpos := True\<rparr>)
       = Inl MoreThanOneSpecialAttribute
   \<and> Leaf_init example_env ((default_args (TupleShape [2, 2]))\<lparr>arg_nonneg := True, arg_PSD := True\<rparr>)
       = Inl MoreThanOneSpecialAttribute"
proof (intro conjI)
  let ?a = "a\<lparr>arg_nonneg := True, arg_nonpos := True\<rparr>"
  have "2 \<le> length (filter snd (attribute_items (init_attributes ?a)))"
    unfolding init_true_attr_count by simp
  moreover have "truthy (arg_boolean ?a) \<and> truthy (arg_integer ?a)
           \<longrightarrow> 3 \<le> length (filter snd (attribute_items (init_attributes ?a)))"
    unfolding init_true_attr_count by simp
  ultimately show "Leaf_init E ?a \<in> {Inl DimensionGreaterThan2, Inl InvalidDimensions,
        Inl MustBeSquareMatrix, Inl MoreThanOneSpecialAttribute}"
    using Leaf_init_too_many [of ?a E] by blast
next
  show "Leaf_init example_env ((default_args (IntShape 2))\<lparr>arg_nonneg := True, arg_nonpos := True\<rparr>)
       = Inl MoreThanOneSpecialAttribute"
    by (simp add: Leaf_init_def init_shape_def default_args_def init_attributes_def
          attribute_items_def)
next
  show "Leaf_init example_env ((default_args (TupleShape [2, 2]))\<lparr>arg_nonneg := True, arg_PSD := True\<rparr>)
       = Inl MoreThanOneSpecialAttribute"
    by (simp add: Leaf_init_def init_shape_def default_args_def init_attributes_def
          attribute_items_def is_square_def)
qed

text \<open>
  C2. The bounds setter on concrete inputs.  A NaN scalar endpoint next to an array
  endpoint is accepted and stored (the comparisons \<^verbatim>\<open>... == np.nan\<close> are never true, and
  the remaining test looks at the other endpoint only), while a NaN scalar next to a scalar
  is refused; \<^verbatim>\<open>[5, 3]\<close> and \<^verbatim>\<open>[-inf, -inf]\<close> are refused and \<^verbatim>\<open>[3, 3]\<close> is stored,
  broadcast to the leaf's shape.
\<close>

theorem bounds_setter_nan_scalar_accepted:
  "bounds_setter (self\<lparr>l_shape := [2]\<rparr>)
      (Some [ScalarB NaN, ArrayB \<lparr>shape = [2], data = [Fin 1, Fin 2]\<rparr>])
     = (None, self\<lparr>l_shape := [2],
                    l_bounds := Some [ArrayB \<lparr>shape = [2], data = [NaN, NaN]\<rparr>,
                                      ArrayB \<lparr>shape = [2], data = [Fin 1, Fin 2]\<rparr>]\<rparr>)
   \<and> bounds_setter (self\<lparr>l_shape := [2]\<rparr>)
      (Some [ArrayB \<lparr>shape = [2], data = [Fin 1, Fin 2]\<rparr>, ScalarB NaN])
     = (None, self\<lparr>l_shape := [2],
                    l_bounds := Some [ArrayB \<lparr>shape = [2], data = [Fin 1, Fin 2]\<rparr>,
                                      ArrayB \<lparr>shape = [2], data = [NaN, NaN]\<rparr>]\<rparr>)
   \<and> bounds_setter (self\<lparr>l_shape := [2]\<rparr>) (Some [ScalarB NaN, ScalarB (Fin 3)])
     = (Some NanBound, self\<lparr>l_shape := [2]\<rparr>)
   \<and> bounds_setter self (Some [ScalarB (Fin 5), ScalarB (Fin 3)]) = (Some UpperLessThanLower, self)
   \<and> bounds_setter self (Some [ScalarB NInf, ScalarB NInf]) = (Some NegInfBothBounds, self)
   \<and> bounds_setter self (Some [ScalarB (Fin 3), ScalarB (Fin 3)])
     = (None, self\<lparr>l_bounds := Some [ArrayB (np_full (l_shape self) (Fin 3)),
                                      ArrayB (np_full (l_shape self) (Fin 3))]\<rparr>)"
  using bounds_nan_scalar_lower [of self] bounds_nan_scalar_upper [of self]
        bounds_nan_two_scalars [of self] bounds_5_3 [of self] bounds_neg_inf [of self]
        bounds_3_3 [of self]
  by blast







text \<open>
  C5. For \<^verbatim>\<open>max_elemwise\<close> over at least two arguments, \<^verbatim>\<open>sign_from_args\<close> reports
  positive exactly when some argument is positive-signed and negative exactly when every
  argument is negative-signed; when neither holds the sign is unknown (both flags false).
  With an argument's sign written as the pair of its answers (is positive, is negative):
  the maximum of a nonnegative-sign and a negative-sign argument is positive, of two
  negative-sign arguments negative, of a negative-sign and an unknown-sign argument unknown.
\<close>

theorem sign_from_args_any_all:
  "sign_from_args isp isn (max_elemwise_init a b rest) =
     ((\<exists>x \<in> set (a # b # rest). isp x), (\<forall>x \<in> set (a # b # rest). isn x))
   \<and> sign_from_args fst snd (max_elemwise_init (True, False) (False, True) []) = (True, False)
   \<and> sign_from_args fst snd (max_elemwise_init (False, True) (False, True) []) = (False, True)
   \<and> sign_from_args fst snd (max_elemwise_init (False, True) (False, False) []) = (False, False)"
  by (simp add: sign_from_args_def max_elemwise_init_def list_ex_iff list_all_iff)

theorem sign_from_args_any_all_witness:
  "sign_from_args fst snd
     (max_elemwise_init (False, True) (False, False) [(True, False)]) = (True, False)"
  using sign_from_args_any_all [of fst snd "(False, True)" "(False, False)" "[(True, False)]"]
  by simp

text \<open>
  C6. The sign of a constructed leaf comes from its attributes: it is nonnegative exactly
  when \<^verbatim>\<open>nonneg\<close>, \<^verbatim>\<open>pos\<close> or \<^verbatim>\<open>boolean\<close> was set, nonpositive exactly when
  \<^verbatim>\<open>nonpos\<close> or \<^verbatim>\<open>neg\<close> was set, and of unknown sign otherwise (an integer leaf, for
  one).
\<close>

theorem Leaf_sign_attributes:
  assumes "Leaf_init E a = Inr l"
  shows "is_nonneg l = (arg_nonneg a \<or> arg_pos a \<or> truthy (arg_boolean a))
       \<and> is_nonpos l = (arg_nonpos a \<or> arg_neg a)"
  using Leaf_init_attributes [OF assms]
  by (simp add: is_nonneg_def is_nonpos_def init_attributes_def)

theorem Leaf_sign_attributes_witness:
  "map_sum id (\<lambda>l. (is_nonneg l, is_nonpos l))
     (Leaf_init example_env ((default_args (IntShape 2))\<lparr>arg_neg := True\<rparr>)) = Inr (False, True)"
proof -
  let ?a = "(default_args (IntShape 2))\<lparr>arg_neg := True\<rparr> :: value leaf_args"
  obtain l where h: "Leaf_init example_env ?a = Inr l"
    by (simp add: Leaf_init_def init_shape_def default_args_def init_attributes_def
          attribute_items_def bounds_setter_def)
  from Leaf_sign_attributes [OF h] have "is_nonneg l = False \<and> is_nonpos l = True"
    by (simp add: default_args_def)
  with h show ?thesis by simp
qed

text \<open>
  A Boolean leaf is nonnegative although neither \<^verbatim>\<open>nonneg\<close> nor \<^verbatim>\<open>pos\<close> is set.
\<close>

theorem boolean_leaf_is_nonneg_counterexample:
  "map_sum id (\<lambda>l. (is_nonneg l, nonneg (attributes l), pos (attributes l)))
     (Leaf_init example_env ((default_args (IntShape 2))\<lparr>arg_boolean := Flag True\<rparr>))
   = Inr (True, False, False)"
  by (simp add: Leaf_init_def init_shape_def default_args_def init_attributes_def
        attribute_items_def bounds_setter_def index_list_def is_nonneg_def)

text \<open>
  C7. Assigning a value: when validation succeeds the leaf stores the assigned value as
  \<^verbatim>\<open>intf.convert\<close> returns it, and nothing else of the leaf changes; when validation
  fails the leaf is unchanged.  The stored value is not the projection: a nonnegative
  leaf assigned \<open>-1e-11\<close> (within the tolerance \<open>1e-10\<close>) keeps \<open>-1e-11\<close>, whose
  projection is \<open>0\<close>.
\<close>

theorem value_setter_keeps_original:
  "(case value_setter E self val of
      (None, self') \<Rightarrow>
        self' = self\<lparr>l_value := map_option (convert E) val\<rparr>
          \<and> validate_value E self val = Inr (map_option (convert E) val)
    | (Some e, self') \<Rightarrow> self' = self \<and> validate_value E self val = Inl e)
   \<and> value_setter example_env (mk_leaf [1] (plain_attrs\<lparr>nonneg := True\<rparr>))
        (Some (Dense \<lparr>shape = [1], data = [R (Fin (- 1 / 10 ^ 11))]\<rparr>))
       = (None, (mk_leaf [1] (plain_attrs\<lparr>nonneg := True\<rparr>))
                  \<lparr>l_value := Some (Dense \<lparr>shape = [1], data = [R (Fin (- 1 / 10 ^ 11))]\<rparr>)\<rparr>)
   \<and> project (eigh example_env) (mk_leaf [1] (plain_attrs\<lparr>nonneg := True\<rparr>))
        (Dense \<lparr>shape = [1], data = [R (Fin (- 1 / 10 ^ 11))]\<rparr>)
       = Inr (Dense \<lparr>shape = [1], data = [R (Fin 0)]\<rparr>)"
proof (intro conjI)
  show "case value_setter E self val of
      (None, self') \<Rightarrow>
        self' = self\<lparr>l_value := map_option (convert E) val\<rparr>
          \<and> validate_value E self val = Inr (map_option (convert E) val)
    | (Some e, self') \<Rightarrow> self' = self \<and> validate_value E self val = Inl e"
  proof (cases "validate_value E self val")
    case (Inl e)
    then show ?thesis by (simp add: value_setter_def)
  next
    case (Inr v)
    with validate_value_original [OF Inr] show ?thesis
      by (simp add: value_setter_def save_value_def)
  qed
next
  show "value_setter example_env (mk_leaf [1] (plain_attrs\<lparr>nonneg := True\<rparr>))
        (Some (Dense \<lparr>shape = [1], data = [R (Fin (- 1 / 10 ^ 11))]\<rparr>))
       = (None, (mk_leaf [1] (plain_attrs\<lparr>nonneg := True\<rparr>))
                  \<lparr>l_value := Some (Dense \<lparr>shape = [1], data = [R (Fin (- 1 / 10 ^ 11))]\<rparr>)\<rparr>)"
    by (simp add: value_setter_def validate_value_def example_env_def mk_leaf_def plain_attrs_def
          value_shape_def project_def is_complex_def is_imag_def on_dense_def np_map_def
          num_maximum_def num_ge_def fl_gt_def fl_ge_def fl_le_def abs_diff_def np_binop_def
          close_enough_def np_allclose0_def fl_sub_def save_value_def)
next
  show "project (eigh example_env) (mk_leaf [1] (plain_attrs\<lparr>nonneg := True\<rparr>))
        (Dense \<lparr>shape = [1], data = [R (Fin (- 1 / 10 ^ 11))]\<rparr>)
       = Inr (Dense \<lparr>shape = [1], data = [R (Fin 0)]\<rparr>)"
    by (simp add: mk_leaf_def plain_attrs_def
          project_def is_complex_def is_imag_def on_dense_def np_map_def
          num_maximum_def num_ge_def fl_gt_def fl_ge_def fl_le_def)
qed

text \<open>
  C8. With an accepted shape, a nonempty \<^verbatim>\<open>bounds\<close> list (or a nonempty
  \<^verbatim>\<open>sparsity\<close> list) next to any special attribute makes the constructor raise the
  error about more than one special attribute: the entry is stored in the attributes
  dictionary and counted like the others.
\<close>

theorem Leaf_init_bounds_counted:
  assumes "init_shape a = Inr shp"
    and "arg_nonneg a \<or> arg_nonpos a \<or> arg_pos a \<or> arg_neg a \<or> arg_complex a \<or> arg_imag a
         \<or> arg_symmetric a \<or> arg_diag a \<or> arg_PSD a \<or> arg_NSD a \<or> arg_hermitian a
         \<or> truthy (arg_boolean a) \<or> truthy (arg_integer a)"
    and "(\<exists>items. arg_bounds a = Some items \<and> items \<noteq> [])
         \<or> (\<exists>idx. arg_sparsity a = Some idx \<and> idx \<noteq> [])"
  shows "Leaf_init E a = Inl MoreThanOneSpecialAttribute"
proof -
  let ?n = "length (filter snd (attribute_items (init_attributes a)))"
  have extra: "1 \<le> of_bool (case arg_sparsity a of None \<Rightarrow> False | Some l \<Rightarrow> l \<noteq> [])
     + (of_bool (case arg_bounds a of None \<Rightarrow> False | Some l \<Rightarrow> l \<noteq> []) :: nat)"
    using assms(3) by auto
  have two: "2 \<le> ?n"
    using assms(2) extra unfolding init_true_attr_count by (elim disjE) simp_all
  have three: "truthy (arg_boolean a) \<and> truthy (arg_integer a) \<longrightarrow> 3 \<le> ?n"
    using extra unfolding init_true_attr_count by simp
  from two three show ?thesis
    using assms(1) by (auto simp: Leaf_init_def Let_def)
qed

theorem Leaf_init_bounds_counted_witness:
  "Leaf_init example_env
     ((default_args (IntShape 3))\<lparr>arg_nonneg := True,
                                   arg_bounds := Some [ScalarB (Fin 0), ScalarB (Fin 1)]\<rparr>)
   = Inl MoreThanOneSpecialAttribute"
  using Leaf_init_bounds_counted [of "(default_args (IntShape 3))\<lparr>arg_nonneg := True,
                                   arg_bounds := Some [ScalarB (Fin 0), ScalarB (Fin 1)]\<rparr>" "[3]" example_env]
  by (simp add: init_shape_def default_args_def)

text \<open>
  An empty \<^verbatim>\<open>bounds\<close> list is not \<^verbatim>\<open>None\<close>, yet it is not counted; the constructor
  then fails in the bounds setter instead.
\<close>

theorem Leaf_init_empty_bounds_counterexample:
  "Leaf_init example_env ((default_args (IntShape 3))\<lparr>arg_nonneg := True, arg_bounds := Some []\<rparr>)
   = Inl BoundsNotListOfTwo"
  by (simp add: Leaf_init_def init_shape_def default_args_def init_attributes_def
        attribute_items_def bounds_setter_def)

text \<open>
  C9. \<^verbatim>\<open>onb_for_orthogonal_complement(V)\<close> fails its assertion whenever the basis
  \<^verbatim>\<open>orth(V)\<close> has at least as many columns as \<open>V\<close> has rows; when it has fewer, the
  assertion passes and the result is \<^verbatim>\<open>orth\<close> of the projector onto the complement.
  In particular the assertion fails for a square \<open>n \<times> n\<close> matrix of full numerical
  rank: one whose factor \<open>R\<close> has, in each of its \<open>n\<close> rows, an entry above \<open>1e-12\<close>
  in magnitude.
\<close>

theorem onb_assertion:
  "(shape V = n # rest \<and> orth qr V (Fin (1 / 10 ^ 12)) = Inr Q1 \<and> shape Q1 = [n1, r]
      \<longrightarrow> (n \<le> r \<longrightarrow> onb_for_orthogonal_complement qr V = Inl AssertionError)
          \<and> (r < n \<longrightarrow> onb_for_orthogonal_complement qr V =
                          (case complement_projector n V Q1 of
                             Inl e \<Rightarrow> Inl e
                           | Inr P \<Rightarrow> orth qr P (Fin (1 / 10 ^ 12)))))
   \<and> (shape W = [m, m] \<and> qr W = Inr (Q, Rm, p) \<and> shape Q = [m, m] \<and> shape Rm = [m, m]
        \<and> count_rows_above Rm (Fin (1 / 10 ^ 12)) = Inr m
      \<longrightarrow> onb_for_orthogonal_complement qr W = Inl AssertionError)"
proof (intro conjI impI)
  assume a: "shape V = n # rest \<and> orth qr V (Fin (1 / 10 ^ 12)) = Inr Q1 \<and> shape Q1 = [n1, r]"
  { assume "n \<le> r"
    with a show "onb_for_orthogonal_complement qr V = Inl AssertionError"
      by (simp add: onb_for_orthogonal_complement_def) }
  { assume "r < n"
    with a show "onb_for_orthogonal_complement qr V =
                   (case complement_projector n V Q1 of
                      Inl e \<Rightarrow> Inl e
                    | Inr P \<Rightarrow> orth qr P (Fin (1 / 10 ^ 12)))"
      by (simp add: onb_for_orthogonal_complement_def) }
next
  assume b: "shape W = [m, m] \<and> qr W = Inr (Q, Rm, p) \<and> shape Q = [m, m] \<and> shape Rm = [m, m]
             \<and> count_rows_above Rm (Fin (1 / 10 ^ 12)) = Inr m"
  with orth_shape [of W m m qr Q Rm p m "Fin (1 / 10 ^ 12)" m] obtain Q1 where
    "orth qr W (Fin (1 / 10 ^ 12)) = Inr Q1" "shape Q1 = [m, m]" by blast
  with b show "onb_for_orthogonal_complement qr W = Inl AssertionError"
    by (simp add: onb_for_orthogonal_complement_def)
qed

theorem onb_assertion_witness:
  "onb_for_orthogonal_complement qr_1x1 \<lparr>shape = [1, 1], data = [R (Fin 5)]\<rparr> = Inl AssertionError
   \<and> onb_for_orthogonal_complement qr_1x1 \<lparr>shape = [1, 1], data = [R (Fin 0)]\<rparr>
       = orth qr_1x1 \<lparr>shape = [1, 1], data = [R (Fin 1)]\<rparr> (Fin (1 / 10 ^ 12))"
proof -
  let ?V = "\<lparr>shape = [1, 1], data = [R (Fin 0)]\<rparr> :: num ndarray"
  let ?W = "\<lparr>shape = [1, 1], data = [R (Fin 5)]\<rparr> :: num ndarray"
  let ?Q = "\<lparr>shape = [1, 1], data = [R (Fin 1)]\<rparr> :: num ndarray"
  let ?Q1 = "\<lparr>shape = [1, 0], data = []\<rparr> :: num ndarray"
  note T = onb_assertion [of ?V 1 "[1]" qr_1x1 ?Q1 1 0 ?W 1 ?Q ?W "[0]"]
  have v: "shape ?V = 1 # [1] \<and> orth qr_1x1 ?V (Fin (1 / 10 ^ 12)) = Inr ?Q1 \<and> shape ?Q1 = [1, 0]"
    by (simp add: orth_def qr_1x1_def count_rows_above_def first_columns_def fl_gt_def)
  have w: "shape ?W = [1, 1] \<and> qr_1x1 ?W = Inr (?Q, ?W, [0]) \<and> shape ?Q = [1, 1]
           \<and> shape ?W = [1, 1] \<and> count_rows_above ?W (Fin (1 / 10 ^ 12)) = Inr 1"
    by (simp add: qr_1x1_def count_rows_above_def fl_gt_def)
  have P: "complement_projector 1 ?V ?Q1 = Inr ?Q"
    by (simp add: complement_projector_def np_dot_def np_T_def iscomplexobj_def
          np_binop_def np_eye_def fl_sub_def)
  from T w have A: "onb_for_orthogonal_complement qr_1x1 ?W = Inl AssertionError" by blast
  from T v have "onb_for_orthogonal_complement qr_1x1 ?V =
                   (case complement_projector 1 ?V ?Q1 of
                      Inl e \<Rightarrow> Inl e
                    | Inr P \<Rightarrow> orth qr_1x1 P (Fin (1 / 10 ^ 12)))"
    by simp
  with P A show ?thesis by simp
qed

text \<open>
  The \<open>1 \<times> 1\<close> matrix \<open>[[1e-13]]\<close> is square and of full rank, but its numerical rank
  is 0: the assertion passes and a basis of the whole space is returned.
\<close>

theorem onb_full_rank_counterexample:
  "onb_for_orthogonal_complement qr_1x1 \<lparr>shape = [1, 1], data = [R (Fin (1 / 10 ^ 13))]\<rparr>
     = Inr \<lparr>shape = [1, 1], data = [R (Fin 1)]\<rparr>
   \<and> (1 / 10 ^ 13 :: real) \<noteq> 0"
  using onb_small_matrix by simp

end
